theory Spec2Isabelle
  imports Main
begin

section \<open>JavaScript string primitives used by the components\<close>

text \<open>
  Strings are \<^typ>\<open>string\<close>; a character stands for one code unit below 256, so the
  white space of \<^verbatim>\<open>String.prototype.trim\<close> and of \<^verbatim>\<open>parseInt\<close> is TAB, LF, VT,
  FF, CR, SPACE and NBSP.
\<close>

definition is_space :: "char \<Rightarrow> bool" where
  "is_space c =
     (c = CHR 0x09 \<or> c = CHR 0x0A \<or> c = CHR 0x0B \<or> c = CHR 0x0C \<or> c = CHR 0x0D \<or>
      c = CHR 0x20 \<or> c = CHR 0xA0)"

text \<open>\<^verbatim>\<open>s.trim()\<close>: white space removed at both ends.\<close>

definition trim :: "string \<Rightarrow> string" where
  "trim s = rev (dropWhile is_space (rev (dropWhile is_space s)))"

text \<open>\<^verbatim>\<open>s || undefined\<close>: the empty string is falsy.\<close>

definition or_undefined :: "string \<Rightarrow> string option" where
  "or_undefined s = (if s = [] then None else Some s)"

text \<open>The value of a character as a digit (letters count from ten, as in \<^verbatim>\<open>parseInt\<close>).\<close>

definition digit_value :: "char \<Rightarrow> nat option" where
  "digit_value c =
     (let n = (of_char c :: nat) in
      if 48 \<le> n \<and> n \<le> 57 then Some (n - 48)
      else if 97 \<le> n \<and> n \<le> 122 then Some (n - 87)
      else if 65 \<le> n \<and> n \<le> 90 then Some (n - 55)
      else None)"

definition is_digit :: "nat \<Rightarrow> char \<Rightarrow> bool" where
  "is_digit R c = (case digit_value c of None \<Rightarrow> False | Some d \<Rightarrow> d < R)"

definition digits_value :: "nat \<Rightarrow> string \<Rightarrow> int" where
  "digits_value R Z =
     foldl (\<lambda>acc c. acc * int R + (case digit_value c of None \<Rightarrow> 0 | Some d \<Rightarrow> int d)) 0 Z"

text \<open>
  The JavaScript numbers that \<^verbatim>\<open>parseInt\<close> returns: NaN, an integer that is a double,
  or an infinity. The sign of zero is not kept: the components compare these numbers,
  test them for truth and pass them on, and none of that tells \<^verbatim>\<open>-0\<close> from \<^verbatim>\<open>0\<close>.
\<close>

datatype number = NaN | Num int | Infinity | NegInfinity

text \<open>The number of binary digits of a positive integer.\<close>

function bit_length :: "int \<Rightarrow> nat" where
  "bit_length n = (if n \<le> 0 then 0 else Suc (bit_length (n div 2)))"
  by pat_completeness auto
termination
  by (relation "measure nat") auto

declare bit_length.simps [simp del]

text \<open>
  The double nearest to an integer that is not negative, ties to the even significand: exact below
  \<open>2 ^ 53\<close>; above, the 53 leading binary digits are kept and rounded on the rest;
  what rounds to \<open>2 ^ 1024\<close> or more is infinite.
\<close>

definition to_double :: "int \<Rightarrow> number" where
  "to_double n =
     (if n < 2 ^ 53 then Num n
      else
        let e = bit_length n - 53;
            q = n div 2 ^ e;
            r = n mod 2 ^ e;
            h = 2 ^ (e - 1);
            q' = (if r > h \<or> (r = h \<and> odd q) then q + 1 else q);
            v = q' * 2 ^ e
        in if v \<ge> 2 ^ 1024 then Infinity else Num v)"

text \<open>
  \<^verbatim>\<open>parseInt(s)\<close> with no radix: leading white space is skipped, a sign is read, a
  \<^verbatim>\<open>0x\<close> prefix selects radix 16, the longest run of digits is the number, and the
  result is NaN when that run is empty. The result is the double nearest to the signed
  value of the run. (The language lets an engine replace the decimal digits after the
  twentieth by zeros before rounding; the model rounds the digits as written.)
\<close>

definition parseInt :: "string \<Rightarrow> number" where
  "parseInt inputString =
     (let S = dropWhile is_space inputString;
          sign = (case S of c # _ \<Rightarrow> if c = CHR ''-'' then (- 1 :: int) else 1 | [] \<Rightarrow> 1);
          S1 = (case S of c # r \<Rightarrow> if c = CHR ''-'' \<or> c = CHR ''+'' then r else S | [] \<Rightarrow> S);
          hex = (case S1 of a # b # _ \<Rightarrow> a = CHR ''0'' \<and> (b = CHR ''x'' \<or> b = CHR ''X'')
                 | _ \<Rightarrow> False);
          R = (if hex then 16 else 10);
          S2 = (if hex then drop 2 S1 else S1);
          Z = takeWhile (is_digit R) S2
      in if Z = [] then NaN
         else (case to_double (digits_value R Z) of
                 Num v \<Rightarrow> Num (sign * v)
               | Infinity \<Rightarrow> if sign < 0 then NegInfinity else Infinity
               | other \<Rightarrow> other))"

text \<open>\<^verbatim>\<open>parseInt(s) || d\<close> for an integer \<open>d\<close>: NaN and zero are falsy.\<close>

definition parseInt_or :: "string \<Rightarrow> int \<Rightarrow> number" where
  "parseInt_or s d =
     (case parseInt s of
        NaN \<Rightarrow> Num d
      | Num n \<Rightarrow> if n = 0 then Num d else Num n
      | Infinity \<Rightarrow> Infinity
      | NegInfinity \<Rightarrow> NegInfinity)"

section \<open>The interfaces of types/profile.ts\<close>

record Profile =
  id :: string
  name :: string
  user_agent :: string
  screen_width :: int
  screen_height :: int
  webgl_vendor :: string
  webgl_renderer :: string
  hardware_concurrency :: int
  device_memory :: int
  platform :: string
  timezone :: string
  language :: string
  default_url :: string
  proxy_enabled :: bool
  proxy_type :: string
  proxy_host :: string
  proxy_port :: int
  proxy_username :: "string option"
  proxy_password :: "string option"
  created_at :: string
  last_used :: "string option"

record ProfileWithStatus = Profile +
  is_active :: bool

text \<open>An optional field (\<^verbatim>\<open>host?: string\<close>) is an \<open>option\<close>: \<open>None\<close> is \<^verbatim>\<open>undefined\<close>.\<close>

record ProxyConfig =
  enabled :: "bool option"
  proxy_type :: "string option"
  host :: "string option"
  port :: "number option"
  username :: "string option"
  password :: "string option"

record CreateProfileInput =
  name :: string
  platform :: "string option"
  default_url :: "string option"
  proxy :: "ProxyConfig option"

record UpdateProfileInput =
  id :: string
  name :: "string option"
  user_agent :: "string option"
  screen_width :: "number option"
  screen_height :: "number option"
  webgl_vendor :: "string option"
  webgl_renderer :: "string option"
  hardware_concurrency :: "number option"
  device_memory :: "number option"
  platform :: "string option"
  timezone :: "string option"
  language :: "string option"
  default_url :: "string option"
  proxy :: "ProxyConfig option"

record LaunchProfileInput =
  profile_id :: string
  start_url :: "string option"

text \<open>The arguments of \<^verbatim>\<open>bulkCreateProfiles\<close> (hooks/useApi.ts), in its parameter order.\<close>

record BulkCreateArgs =
  arg_count :: int
  arg_namePrefix :: string
  arg_platform :: "string option"
  arg_defaultUrl :: "string option"
  arg_proxy :: "ProxyConfig option"

text \<open>
  What a submit handler does: it either shows \<^verbatim>\<open>alert(msg)\<close> and returns before any
  API call, or it calls the API function with a request. What the handler does with the
  response (closing the dialog, or an alert with the error) is after the call and is not
  part of the value.
\<close>

datatype 'r submit = Alert string | Invoke 'r

section \<open>CreateProfileModal and BulkCreateModal: handleCreate\<close>

text \<open>
  \<^verbatim>\<open>handleCreate\<close> of CreateProfileModal, as a function of the state variables it reads
  (\<open>name'\<close> and \<open>platform'\<close> are the state variables \<^verbatim>\<open>name\<close> and \<^verbatim>\<open>platform\<close>; the
  plain names are the record fields). \<^verbatim>\<open>!s.trim()\<close> is \<open>trim s = []\<close>.
\<close>

definition CreateProfileModal_handleCreate ::
  "string \<Rightarrow> string \<Rightarrow> string \<Rightarrow> bool \<Rightarrow> string \<Rightarrow> string \<Rightarrow> string \<Rightarrow> string \<Rightarrow> string
     \<Rightarrow> CreateProfileInput submit" where
  "CreateProfileModal_handleCreate name' platform' defaultUrl
       proxyEnabled proxyType proxyHost proxyPort proxyUsername proxyPassword =
     (if trim name' = [] then Alert ''Please enter a profile name''
      else if proxyEnabled \<and> (trim proxyHost = [] \<or> trim proxyPort = [])
        then Alert ''Please enter proxy host and port''
      else Invoke
        \<lparr> CreateProfileInput.name = trim name',
          CreateProfileInput.platform = or_undefined platform',
          CreateProfileInput.default_url = or_undefined (trim defaultUrl),
          CreateProfileInput.proxy =
            (if proxyEnabled then
               Some \<lparr> enabled = Some True,
                      ProxyConfig.proxy_type = Some proxyType,
                      host = Some (trim proxyHost),
                      port = Some (parseInt_or proxyPort 0),
                      username = or_undefined (trim proxyUsername),
                      password = or_undefined (trim proxyPassword) \<rparr>
             else None) \<rparr>)"

text \<open>\<^verbatim>\<open>handleCreate\<close> of BulkCreateModal.\<close>

definition BulkCreateModal_handleCreate ::
  "int \<Rightarrow> string \<Rightarrow> string \<Rightarrow> string \<Rightarrow> bool \<Rightarrow> string \<Rightarrow> string \<Rightarrow> string \<Rightarrow> string \<Rightarrow> string
     \<Rightarrow> BulkCreateArgs submit" where
  "BulkCreateModal_handleCreate count namePrefix platform' defaultUrl
       proxyEnabled proxyType proxyHost proxyPort proxyUsername proxyPassword =
     (if count < 1 \<or> count > 100 then Alert ''Count must be between 1 and 100''
      else if trim namePrefix = [] then Alert ''Name prefix is required''
      else if proxyEnabled \<and> (trim proxyHost = [] \<or> trim proxyPort = [])
        then Alert ''Please enter proxy host and port''
      else Invoke
        \<lparr> arg_count = count,
          arg_namePrefix = trim namePrefix,
          arg_platform = or_undefined platform',
          arg_defaultUrl = or_undefined (trim defaultUrl),
          arg_proxy =
            (if proxyEnabled then
               Some \<lparr> enabled = Some True,
                      ProxyConfig.proxy_type = Some proxyType,
                      host = Some (trim proxyHost),
                      port = Some (parseInt_or proxyPort 0),
                      username = or_undefined (trim proxyUsername),
                      password = or_undefined (trim proxyPassword) \<rparr>
             else None) \<rparr>)"

text \<open>
  The count field's \<^verbatim>\<open>onChange\<close>: \<^verbatim>\<open>setCount(parseInt(e.target.value) || 1)\<close>. The
  state it sets is never NaN; \<open>Num n\<close> is the count \<open>n\<close> that \<^verbatim>\<open>handleCreate\<close> reads.
\<close>

definition count_onChange :: "string \<Rightarrow> number" where
  "count_onChange v = parseInt_or v 1"

section \<open>EditProfileModal\<close>

text \<open>
  The form state \<^verbatim>\<open>formData\<close> is an \<^verbatim>\<open>UpdateProfileInput\<close>. The effect on \<^verbatim>\<open>profile\<close>
  copies twelve fields of the stored profile into it; \<^verbatim>\<open>default_url\<close> and \<^verbatim>\<open>proxy\<close>
  are never set.
\<close>

definition formData_of :: "ProfileWithStatus \<Rightarrow> UpdateProfileInput" where
  "formData_of profile =
     \<lparr> UpdateProfileInput.id = Profile.id profile,
       UpdateProfileInput.name = Some (Profile.name profile),
       UpdateProfileInput.user_agent = Some (Profile.user_agent profile),
       UpdateProfileInput.screen_width = Some (Num (Profile.screen_width profile)),
       UpdateProfileInput.screen_height = Some (Num (Profile.screen_height profile)),
       UpdateProfileInput.webgl_vendor = Some (Profile.webgl_vendor profile),
       UpdateProfileInput.webgl_renderer = Some (Profile.webgl_renderer profile),
       UpdateProfileInput.hardware_concurrency = Some (Num (Profile.hardware_concurrency profile)),
       UpdateProfileInput.device_memory = Some (Num (Profile.device_memory profile)),
       UpdateProfileInput.platform = Some (Profile.platform profile),
       UpdateProfileInput.timezone = Some (Profile.timezone profile),
       UpdateProfileInput.language = Some (Profile.language profile),
       UpdateProfileInput.default_url = None,
       UpdateProfileInput.proxy = None \<rparr>"

text \<open>
  \<^verbatim>\<open>handleChange(field, value)\<close> overwrites one key of the form and keeps the others
  (the spread of \<^verbatim>\<open>prev\<close> followed by the computed key). The constructors are the
  eleven call sites of the form's inputs: a text input passes the typed string, a number
  input or a select passes \<^verbatim>\<open>parseInt(e.target.value)\<close>.
\<close>

datatype change =
    Change_name string
  | Change_user_agent string
  | Change_screen_width number
  | Change_screen_height number
  | Change_hardware_concurrency number
  | Change_device_memory number
  | Change_webgl_vendor string
  | Change_webgl_renderer string
  | Change_platform string
  | Change_timezone string
  | Change_language string

fun handleChange :: "change \<Rightarrow> UpdateProfileInput \<Rightarrow> UpdateProfileInput" where
  "handleChange (Change_name v) prev = prev\<lparr>UpdateProfileInput.name := Some v\<rparr>"
| "handleChange (Change_user_agent v) prev = prev\<lparr>UpdateProfileInput.user_agent := Some v\<rparr>"
| "handleChange (Change_screen_width v) prev = prev\<lparr>UpdateProfileInput.screen_width := Some v\<rparr>"
| "handleChange (Change_screen_height v) prev =
     prev\<lparr>UpdateProfileInput.screen_height := Some v\<rparr>"
| "handleChange (Change_hardware_concurrency v) prev =
     prev\<lparr>UpdateProfileInput.hardware_concurrency := Some v\<rparr>"
| "handleChange (Change_device_memory v) prev =
     prev\<lparr>UpdateProfileInput.device_memory := Some v\<rparr>"
| "handleChange (Change_webgl_vendor v) prev = prev\<lparr>UpdateProfileInput.webgl_vendor := Some v\<rparr>"
| "handleChange (Change_webgl_renderer v) prev =
     prev\<lparr>UpdateProfileInput.webgl_renderer := Some v\<rparr>"
| "handleChange (Change_platform v) prev = prev\<lparr>UpdateProfileInput.platform := Some v\<rparr>"
| "handleChange (Change_timezone v) prev = prev\<lparr>UpdateProfileInput.timezone := Some v\<rparr>"
| "handleChange (Change_language v) prev = prev\<lparr>UpdateProfileInput.language := Some v\<rparr>"

text \<open>
  \<^verbatim>\<open>handleSubmit\<close>: \<^verbatim>\<open>!formData.name?.trim()\<close> holds when the name is undefined or
  blank; otherwise the whole form is passed to \<^verbatim>\<open>updateProfile\<close>.
\<close>

definition handleSubmit :: "UpdateProfileInput \<Rightarrow> UpdateProfileInput submit" where
  "handleSubmit formData =
     (if (case UpdateProfileInput.name formData of None \<Rightarrow> True | Some n \<Rightarrow> trim n = [])
      then Alert ''Profile name is required''
      else Invoke formData)"

text \<open>The edit path: the form loaded from a profile, a run of edits, then Save.\<close>

definition edit_and_submit :: "ProfileWithStatus \<Rightarrow> change list \<Rightarrow> UpdateProfileInput submit" where
  "edit_and_submit profile changes =
     handleSubmit (foldl (\<lambda>formData c. handleChange c formData) (formData_of profile) changes)"

text \<open>
  The value a field of the form holds after a run of edits: the last value typed into it,
  or the stored one when no edit touched it. \<open>sel\<close> picks the edits of one field.
\<close>

definition typed :: "(change \<Rightarrow> 'a option) \<Rightarrow> change list \<Rightarrow> 'a \<Rightarrow> 'a" where
  "typed sel changes stored =
     foldl (\<lambda>v c. case sel c of None \<Rightarrow> v | Some w \<Rightarrow> w) stored changes"

definition name_typed :: "change \<Rightarrow> string option" where
  "name_typed c = (case c of Change_name v \<Rightarrow> Some v | _ \<Rightarrow> None)"

definition user_agent_typed :: "change \<Rightarrow> string option" where
  "user_agent_typed c = (case c of Change_user_agent v \<Rightarrow> Some v | _ \<Rightarrow> None)"

definition platform_typed :: "change \<Rightarrow> string option" where
  "platform_typed c = (case c of Change_platform v \<Rightarrow> Some v | _ \<Rightarrow> None)"

definition webgl_vendor_typed :: "change \<Rightarrow> string option" where
  "webgl_vendor_typed c = (case c of Change_webgl_vendor v \<Rightarrow> Some v | _ \<Rightarrow> None)"

definition webgl_renderer_typed :: "change \<Rightarrow> string option" where
  "webgl_renderer_typed c = (case c of Change_webgl_renderer v \<Rightarrow> Some v | _ \<Rightarrow> None)"

definition timezone_typed :: "change \<Rightarrow> string option" where
  "timezone_typed c = (case c of Change_timezone v \<Rightarrow> Some v | _ \<Rightarrow> None)"

definition language_typed :: "change \<Rightarrow> string option" where
  "language_typed c = (case c of Change_language v \<Rightarrow> Some v | _ \<Rightarrow> None)"

section \<open>ProfileCard: the platform a string names\<close>

text \<open>\<^verbatim>\<open>s.includes(sub)\<close>.\<close>

fun js_includes :: "string \<Rightarrow> string \<Rightarrow> bool" where
  "js_includes [] sub = (sub = [])"
| "js_includes (c # r) sub = (take (length sub) (c # r) = sub \<or> js_includes r sub)"

text \<open>\<^verbatim>\<open>getPlatformIcon\<close> of ProfileCard, as a function of \<^verbatim>\<open>profile.platform\<close>.\<close>

datatype platform_icon = Window_icon | Apple_icon | Penguin_icon | Laptop_icon

definition getPlatformIcon :: "string \<Rightarrow> platform_icon" where
  "getPlatformIcon platform' =
     (if js_includes platform' ''Win'' then Window_icon
      else if js_includes platform' ''Mac'' then Apple_icon
      else if js_includes platform' ''Linux'' then Penguin_icon
      else Laptop_icon)"

text \<open>
  Modelled from the spec: the consistency of a fingerprint tuple is decided by no code
  under the sources. Section 3 of the spec has \<open>platform_family\<close> one of Windows, macOS
  and Linux, and requires that \<open>user_agent\<close> and the platform string "encode the same
  \<open>platform_family\<close>". The family a string encodes is read with the tokens that
  \<^verbatim>\<open>getPlatformIcon\<close> looks for. Agreement of the two strings is necessary for the
  consistency of the whole tuple.
\<close>

datatype platform_family = Windows | MacOS | Linux

definition encoded_family :: "string \<Rightarrow> platform_family option" where
  "encoded_family s =
     (case getPlatformIcon s of
        Window_icon \<Rightarrow> Some Windows
      | Apple_icon \<Rightarrow> Some MacOS
      | Penguin_icon \<Rightarrow> Some Linux
      | Laptop_icon \<Rightarrow> None)"

definition ua_platform_consistent :: "string option \<Rightarrow> string option \<Rightarrow> bool" where
  "ua_platform_consistent ua pl =
     (case (ua, pl) of
        (Some u, Some p) \<Rightarrow> encoded_family u \<noteq> None \<and> encoded_family u = encoded_family p
      | _ \<Rightarrow> False)"

section \<open>Session manager\<close>

text \<open>
  Modelled from the spec: the session manager, the catalog and the window layer live in
  the backend behind the commands of hooks/useApi.ts and are not under the sources. The
  error kinds are the taxonomy of section 7, the states those of section 4.4.
\<close>

datatype error_kind =
    InvalidPlatformConstraint
  | UnsupportedOverrideTarget
  | AlreadyActive
  | NotActive
  | SessionActiveConflict
  | StorageUnavailable
  | WindowCreationFailed

datatype lifecycle = Idle | Launching | Active | Closing

text \<open>
  Modelled from the spec: section 3, Identity (\<open>id\<close>, \<open>fingerprint\<close>, optional \<open>proxy\<close>,
  \<open>default_url\<close>) and Session (\<open>identity_id\<close>, \<open>window_handle\<close>,
  \<open>storage_partition_key\<close>, \<open>created_at\<close>). The fingerprint is a type parameter: no
  transition below looks inside it.
\<close>

record 'fp Identity =
  id :: string
  fingerprint :: 'fp
  proxy :: "ProxyConfig option"
  default_url :: string

record Session =
  identity_id :: string
  window_handle :: nat
  storage_partition_key :: string
  created_at :: nat

text \<open>
  Modelled from the spec: what section 4.4 says a launch opens, "a window bound to the
  partition with proxy settings applied if \<open>proxy.enabled\<close>", with the script registered
  and the address it navigates to.
\<close>

record 'script Window =
  bound_partition :: string
  applied_proxy :: "ProxyConfig option"
  registered_script :: 'script
  url :: string

text \<open>
  Modelled from the spec: the collaborators a transition calls. \<open>partition_key_for\<close> is
  the storage partition resolver (section 3); \<open>storage_available\<close> is \<open>False\<close> where
  section 7 has \<open>StorageUnavailable\<close>; \<open>synthesize\<close> is the script synthesizer and
  returns \<open>None\<close> where section 4.3 has \<open>UnsupportedOverrideTarget\<close>; \<open>open_window\<close> is
  the native layer and returns \<open>None\<close> where it refuses (\<open>WindowCreationFailed\<close>).
\<close>

record ('fp, 'script) host =
  partition_key_for :: "string \<Rightarrow> string"
  storage_available :: "string \<Rightarrow> bool"
  synthesize :: "'fp \<Rightarrow> 'script option"
  open_window :: "'script Window \<Rightarrow> nat option"
  now :: nat

text \<open>
  Modelled from the spec: the state the transitions work on. \<open>get_identity\<close> is the
  catalog of section 6, \<open>state_of\<close> the state of each identity, \<open>sessions\<close> the session
  table, \<open>partitions\<close> the keys of the storage partitions that exist, \<open>windows\<close> the
  open windows by handle.
\<close>

record ('fp, 'script) manager =
  get_identity :: "string \<Rightarrow> 'fp Identity"
  state_of :: "string \<Rightarrow> lifecycle"
  sessions :: "Session list"
  partitions :: "string list"
  windows :: "nat \<rightharpoonup> 'script Window"

text \<open>
  Modelled from the spec: \<open>launch(identity_id, start_url)\<close> of section 4.4, on the request
  record of types/profile.ts. It is allowed only from \<open>Idle\<close> and fails with
  \<open>AlreadyActive\<close> otherwise; it resolves the partition, reads the fingerprint, invokes
  the synthesizer, opens the window, "navigates to \<open>start_url\<close> or the identity's
  \<open>default_url\<close>", and on success becomes \<open>Active\<close> and records the session. A failure
  leaves the identity \<open>Idle\<close> (section 7). The transition is one step:
  \<open>Launching\<close> is its interior (section 5 serialises the transitions of an identity).
\<close>

definition launch ::
  "('fp, 'script) host \<Rightarrow> ('fp, 'script) manager \<Rightarrow> LaunchProfileInput
     \<Rightarrow> (error_kind + nat) \<times> ('fp, 'script) manager" where
  "launch h m input =
     (if state_of m (profile_id input) \<noteq> Idle then (Inl AlreadyActive, m)
      else
        let identity = get_identity m (profile_id input);
            key = partition_key_for h (profile_id input)
        in if \<not> storage_available h key then (Inl StorageUnavailable, m)
           else
             (case synthesize h (fingerprint identity) of
                None \<Rightarrow> (Inl UnsupportedOverrideTarget, m)
              | Some script \<Rightarrow>
                  let w = \<lparr> bound_partition = key,
                            applied_proxy =
                              (case Identity.proxy identity of
                                 None \<Rightarrow> None
                               | Some p \<Rightarrow> if enabled p = Some True then Some p else None),
                            registered_script = script,
                            url = (case start_url input of
                                     Some u \<Rightarrow> u
                                   | None \<Rightarrow> Identity.default_url identity) \<rparr>
                  in (case open_window h w of
                        None \<Rightarrow> (Inl WindowCreationFailed, m)
                      | Some handle \<Rightarrow>
                          (Inr handle,
                           m\<lparr> state_of := (state_of m)(profile_id input := Active),
                              sessions :=
                                \<lparr> identity_id = profile_id input, window_handle = handle,
                                  storage_partition_key = key, Session.created_at = now h \<rparr>
                                # sessions m,
                              partitions := List.insert key (partitions m),
                              windows := (windows m)(handle \<mapsto> w) \<rparr>))))"

text \<open>
  Modelled from the spec: \<open>regenerate(identity_id)\<close> of section 4.4, "allowed only from
  \<open>Idle\<close>" and "rejected with \<open>SessionActiveConflict\<close> while \<open>Active\<close>"; it invokes the
  fingerprint generator (section 2), here \<open>generate\<close> on the injected randomness with no
  platform constraint, and saves the result in the catalog.
\<close>

definition regenerate ::
  "('rng \<Rightarrow> 'fp) \<Rightarrow> ('fp, 'script) manager \<Rightarrow> string \<Rightarrow> 'rng
     \<Rightarrow> (error_kind + 'fp) \<times> ('fp, 'script) manager" where
  "regenerate generate m i rng =
     (if state_of m i = Idle then
        let fp = generate rng
        in (Inr fp,
            m\<lparr> get_identity := (get_identity m)(i := (get_identity m i)\<lparr>fingerprint := fp\<rparr>) \<rparr>)
      else (Inl SessionActiveConflict, m))"

text \<open>
  Modelled from the spec: \<open>delete(identity_id)\<close> of section 4.4, "allowed only from
  \<open>Idle\<close>, same rationale; also removes the storage partition". The profile record itself
  belongs to the catalog, outside the core (section 1).
\<close>

definition delete ::
  "('fp, 'script) host \<Rightarrow> ('fp, 'script) manager \<Rightarrow> string
     \<Rightarrow> (error_kind + unit) \<times> ('fp, 'script) manager" where
  "delete h m i =
     (if state_of m i = Idle then
        (Inr (), m\<lparr> partitions := removeAll (partition_key_for h i) (partitions m) \<rparr>)
      else (Inl SessionActiveConflict, m))"

section \<open>Concrete inputs\<close>

text \<open>A stored macOS profile, as the edit form receives it.\<close>

definition mac_profile :: ProfileWithStatus where
  "mac_profile =
     \<lparr> Profile.id = ''p1'', Profile.name = ''Shop'',
       Profile.user_agent = ''Mozilla/5.0 (Macintosh; Intel Mac OS X 10_15_7)'',
       Profile.screen_width = 1920, Profile.screen_height = 1080,
       Profile.webgl_vendor = ''Apple Inc.'', Profile.webgl_renderer = ''Apple M1'',
       Profile.hardware_concurrency = 8, Profile.device_memory = 8,
       Profile.platform = ''MacIntel'', Profile.timezone = ''America/New_York'',
       Profile.language = ''en-US'', Profile.default_url = ''https://www.google.com'',
       proxy_enabled = False, Profile.proxy_type = ''http'', proxy_host = [], proxy_port = 0,
       proxy_username = None, proxy_password = None, Profile.created_at = ''1700000000'',
       last_used = None, is_active = False \<rparr>"

text \<open>
  A host whose collaborators all succeed, and a manager with every identity \<open>Idle\<close>;
  fingerprints are numbers and the generator returns its randomness.
\<close>

definition demo_host :: "(nat, string) host" where
  "demo_host =
     \<lparr> partition_key_for = (\<lambda>i. ''profiles/'' @ i),
       storage_available = (\<lambda>k. True),
       synthesize = (\<lambda>fp. Some ''script''),
       open_window = (\<lambda>w. Some 1),
       now = 0 \<rparr>"

definition demo_manager :: "(nat, string) manager" where
  "demo_manager =
     \<lparr> get_identity =
         (\<lambda>i. \<lparr> Identity.id = i, fingerprint = 0, Identity.proxy = None,
                 Identity.default_url = ''https://www.google.com'' \<rparr>),
       state_of = (\<lambda>i. Idle),
       sessions = [],
       partitions = [],
       windows = Map.empty \<rparr>"

section \<open>Evaluation of the string primitives\<close>

lemmas js_eval = trim_def is_space_def or_undefined_def parseInt_def parseInt_or_def
  is_digit_def digit_value_def digits_value_def to_double_def

lemma parseInt_examples:
  "parseInt ''8080'' = Num 8080" "parseInt ''0'' = Num 0" "parseInt ''0.5'' = Num 0"
  "parseInt '' -12px'' = Num (- 12)" "parseInt ''0x1F'' = Num 31" "parseInt ''abc'' = NaN"
  "parseInt ''.5'' = NaN" "parseInt [] = NaN"
  by (simp_all add: js_eval)

text \<open>
  Beyond \<open>2 ^ 53\<close> the result is rounded as a double is: \<open>2 ^ 53 + 1\<close> lies midway and
  goes to \<open>2 ^ 53\<close>, \<open>2 ^ 53 + 3\<close> lies midway and goes to \<open>2 ^ 53 + 4\<close>, and a run of
  310 nines is infinite.
\<close>

lemma to_double_examples:
  "to_double 9007199254740992 = Num 9007199254740992"
  "to_double 9007199254740993 = Num 9007199254740992"
  "to_double 9007199254740995 = Num 9007199254740996"
  "to_double (10 ^ 310 - 1) = Infinity"
  by code_simp+

lemma parseInt_rounds:
  "parseInt ''9007199254740993'' = Num 9007199254740992"
  "parseInt ''-9007199254740995'' = Num (- 9007199254740996)"
  "parseInt (replicate 310 (CHR ''9'')) = Infinity"
  "parseInt (CHR ''-'' # replicate 310 (CHR ''9'')) = NegInfinity"
  by code_simp+

lemma trim_examples:
  "trim '' ab c  '' = ''ab c''" "trim ''   '' = []"
  by (simp_all add: js_eval)

section \<open>Bulk creation is issued only for a valid count and prefix\<close>

text \<open>
  C10. \<^verbatim>\<open>handleCreate\<close> of BulkCreateModal calls \<^verbatim>\<open>bulkCreateProfiles\<close> only with a
  count between 1 and 100 inclusive (the count of the form, unchanged) and with the
  trimmed name prefix, which is not empty; when the count is outside that range or the
  prefix is blank, the handler stops at an alert and makes no call.
\<close>

theorem bulk_create_only_valid:
  "(\<forall>args. BulkCreateModal_handleCreate count namePrefix platform' defaultUrl
        proxyEnabled proxyType proxyHost proxyPort proxyUsername proxyPassword = Invoke args \<longrightarrow>
      1 \<le> arg_count args \<and> arg_count args \<le> 100 \<and> arg_count args = count \<and>
      arg_namePrefix args = trim namePrefix \<and> arg_namePrefix args \<noteq> []) \<and>
   (count < 1 \<or> count > 100 \<or> trim namePrefix = [] \<longrightarrow>
      (\<exists>msg. BulkCreateModal_handleCreate count namePrefix platform' defaultUrl
        proxyEnabled proxyType proxyHost proxyPort proxyUsername proxyPassword = Alert msg))"
  by (auto simp: BulkCreateModal_handleCreate_def split: if_splits)

theorem bulk_create_only_valid_witness:
  "BulkCreateModal_handleCreate 10 ''Profile'' [] ''https://www.google.com''
       False ''http'' [] [] [] [] =
     Invoke \<lparr> arg_count = 10, arg_namePrefix = ''Profile'', arg_platform = None,
              arg_defaultUrl = Some ''https://www.google.com'', arg_proxy = None \<rparr> \<and>
   BulkCreateModal_handleCreate 101 ''Profile'' [] ''https://www.google.com''
       False ''http'' [] [] [] [] = Alert ''Count must be between 1 and 100'' \<and>
   BulkCreateModal_handleCreate 0 ''Profile'' [] ''https://www.google.com''
       False ''http'' [] [] [] [] = Alert ''Count must be between 1 and 100'' \<and>
   BulkCreateModal_handleCreate 5 ''   '' [] ''https://www.google.com''
       False ''http'' [] [] [] [] = Alert ''Name prefix is required'' \<and>
   count_onChange ''250'' = Num 250 \<and> count_onChange [] = Num 1 \<and>
   BulkCreateModal_handleCreate 250 ''Profile'' [] []
       False ''http'' [] [] [] [] = Alert ''Count must be between 1 and 100''"
  using bulk_create_only_valid [of 10 "''Profile''" "[]" "''https://www.google.com''"
      False "''http''" "[]" "[]" "[]" "[]"]
  by (simp add: BulkCreateModal_handleCreate_def count_onChange_def js_eval)

section \<open>The proxy configuration a creation request carries\<close>

text \<open>
  The half of the invariant that the guard of both dialogs secures: a ProxyConfig that a
  creation request carries has \<open>enabled\<close> true and the trimmed host field as its host,
  which is not empty, and the port field's text is not blank.
\<close>

lemma submitted_proxy_host:
  "(\<forall>req p. CreateProfileModal_handleCreate name' platform' defaultUrl
        proxyEnabled proxyType proxyHost proxyPort proxyUsername proxyPassword = Invoke req \<and>
        CreateProfileInput.proxy req = Some p \<longrightarrow>
      enabled p = Some True \<and> host p = Some (trim proxyHost) \<and> trim proxyHost \<noteq> [] \<and>
      trim proxyPort \<noteq> []) \<and>
   (\<forall>args p. BulkCreateModal_handleCreate count namePrefix platform' defaultUrl
        proxyEnabled proxyType proxyHost proxyPort proxyUsername proxyPassword = Invoke args \<and>
        arg_proxy args = Some p \<longrightarrow>
      enabled p = Some True \<and> host p = Some (trim proxyHost) \<and> trim proxyHost \<noteq> [] \<and>
      trim proxyPort \<noteq> [])"
  by (auto simp: CreateProfileModal_handleCreate_def BulkCreateModal_handleCreate_def
      split: if_splits)

text \<open>
  C2. A ProxyConfig with \<open>enabled\<close> true must have a non-zero port, and the dialogs miss
  it: the guard under \<^verbatim>\<open>// Validate proxy if enabled\<close> tests the port's text, not the
  parsed port. With the proxy enabled, host \<^verbatim>\<open>proxy.example.com\<close> and the port text
  \<^verbatim>\<open>0\<close>, \<^verbatim>\<open>handleCreate\<close> of CreateProfileModal submits \<open>enabled\<close> true with \<open>port\<close>
  zero; with the port text \<^verbatim>\<open>.5\<close>, which \<^verbatim>\<open>parseInt\<close> reads as NaN,
  \<^verbatim>\<open>handleCreate\<close> of BulkCreateModal does the same.
\<close>

theorem proxy_port_zero_submitted:
  "CreateProfileModal_handleCreate ''Shop'' [] ''https://www.google.com''
       True ''http'' ''proxy.example.com'' ''0'' [] [] =
     Invoke \<lparr> CreateProfileInput.name = ''Shop'', CreateProfileInput.platform = None,
              CreateProfileInput.default_url = Some ''https://www.google.com'',
              CreateProfileInput.proxy =
                Some \<lparr> enabled = Some True, ProxyConfig.proxy_type = Some ''http'',
                       host = Some ''proxy.example.com'', port = Some (Num 0),
                       username = None, password = None \<rparr> \<rparr> \<and>
   BulkCreateModal_handleCreate 3 ''Shop'' [] ''https://www.google.com''
       True ''http'' ''proxy.example.com'' ''.5'' [] [] =
     Invoke \<lparr> arg_count = 3, arg_namePrefix = ''Shop'', arg_platform = None,
              arg_defaultUrl = Some ''https://www.google.com'',
              arg_proxy =
                Some \<lparr> enabled = Some True, ProxyConfig.proxy_type = Some ''http'',
                       host = Some ''proxy.example.com'', port = Some (Num 0),
                       username = None, password = None \<rparr> \<rparr>"
  by (simp add: CreateProfileModal_handleCreate_def BulkCreateModal_handleCreate_def js_eval)

section \<open>What the edit form submits\<close>

lemma foldl_id:
  "UpdateProfileInput.id (foldl (\<lambda>formData c. handleChange c formData) fd cs) =
     UpdateProfileInput.id fd"
proof (induction cs arbitrary: fd)
  case Nil
  show ?case by simp
next
  case (Cons c cs)
  then show ?case by (cases c) simp_all
qed

text \<open>
  A field \<open>g\<close> of the form that each edit either overwrites (the edits \<open>sel\<close> picks) or
  leaves alone holds, after a run of edits, the last value typed or the value it started
  with.
\<close>

lemma foldl_field:
  assumes step: "\<And>c fd. g (handleChange c fd) = (case sel c of None \<Rightarrow> g fd | Some w \<Rightarrow> Some w)"
  shows "g fd = Some d \<Longrightarrow>
    g (foldl (\<lambda>formData c. handleChange c formData) fd cs) = Some (typed sel cs d)"
proof (induction cs arbitrary: fd d)
  case Nil
  then show ?case by (simp add: typed_def)
next
  case (Cons c cs)
  show ?case
  proof (cases "sel c")
    case None
    with Cons.prems have "g (handleChange c fd) = Some d" by (simp add: step)
    from Cons.IH [OF this] None show ?thesis by (simp add: typed_def)
  next
    case (Some w)
    then have "g (handleChange c fd) = Some w" by (simp add: step)
    from Cons.IH [OF this] Some show ?thesis by (simp add: typed_def)
  qed
qed

lemma step_name:
  "UpdateProfileInput.name (handleChange c fd) =
     (case name_typed c of None \<Rightarrow> UpdateProfileInput.name fd | Some w \<Rightarrow> Some w)"
  by (cases c) (simp_all add: name_typed_def)

lemma step_user_agent:
  "UpdateProfileInput.user_agent (handleChange c fd) =
     (case user_agent_typed c of None \<Rightarrow> UpdateProfileInput.user_agent fd | Some w \<Rightarrow> Some w)"
  by (cases c) (simp_all add: user_agent_typed_def)

lemma step_platform:
  "UpdateProfileInput.platform (handleChange c fd) =
     (case platform_typed c of None \<Rightarrow> UpdateProfileInput.platform fd | Some w \<Rightarrow> Some w)"
  by (cases c) (simp_all add: platform_typed_def)

lemma step_webgl_vendor:
  "UpdateProfileInput.webgl_vendor (handleChange c fd) =
     (case webgl_vendor_typed c of None \<Rightarrow> UpdateProfileInput.webgl_vendor fd | Some w \<Rightarrow> Some w)"
  by (cases c) (simp_all add: webgl_vendor_typed_def)

lemma step_webgl_renderer:
  "UpdateProfileInput.webgl_renderer (handleChange c fd) =
     (case webgl_renderer_typed c of None \<Rightarrow> UpdateProfileInput.webgl_renderer fd
      | Some w \<Rightarrow> Some w)"
  by (cases c) (simp_all add: webgl_renderer_typed_def)

lemma step_timezone:
  "UpdateProfileInput.timezone (handleChange c fd) =
     (case timezone_typed c of None \<Rightarrow> UpdateProfileInput.timezone fd | Some w \<Rightarrow> Some w)"
  by (cases c) (simp_all add: timezone_typed_def)

lemma step_language:
  "UpdateProfileInput.language (handleChange c fd) =
     (case language_typed c of None \<Rightarrow> UpdateProfileInput.language fd | Some w \<Rightarrow> Some w)"
  by (cases c) (simp_all add: language_typed_def)

lemma handleSubmit_Invoke: "handleSubmit fd = Invoke r \<Longrightarrow> r = fd"
  by (simp add: handleSubmit_def split: if_splits)

text \<open>
  C1, as stated, fails: the stored profile \<open>mac_profile\<close> has a user agent and a platform
  string that name the same family; typing \<^verbatim>\<open>Win32\<close> into the Platform input and
  pressing Save passes the form to \<^verbatim>\<open>updateProfile\<close> with the platform replaced and the
  macOS user agent kept, and the two no longer agree.
\<close>

theorem edit_inconsistent_counterexample:
  "ua_platform_consistent (Some (Profile.user_agent mac_profile))
       (Some (Profile.platform mac_profile)) \<and>
   edit_and_submit mac_profile [Change_platform ''Win32''] =
     Invoke ((formData_of mac_profile)\<lparr>UpdateProfileInput.platform := Some ''Win32''\<rparr>) \<and>
   \<not> ua_platform_consistent
       (UpdateProfileInput.user_agent
          ((formData_of mac_profile)\<lparr>UpdateProfileInput.platform := Some ''Win32''\<rparr>))
       (UpdateProfileInput.platform
          ((formData_of mac_profile)\<lparr>UpdateProfileInput.platform := Some ''Win32''\<rparr>))"
  by (simp add: ua_platform_consistent_def encoded_family_def getPlatformIcon_def
      edit_and_submit_def handleSubmit_def formData_of_def mac_profile_def trim_def is_space_def)

text \<open>
  C1, amended. The edit form submits exactly when the name it holds is not blank, and
  the update it submits carries the identity's id and, for each of \<open>user_agent\<close>,
  \<open>platform\<close>, \<open>webgl_vendor\<close>, \<open>webgl_renderer\<close>, \<open>timezone\<close> and \<open>language\<close>, the last
  value typed into that field, or the stored profile's value when the field was not
  edited. No field is checked against another.
\<close>

theorem edit_submits_typed_fields:
  "((\<exists>r. edit_and_submit profile changes = Invoke r) \<longleftrightarrow>
      trim (typed name_typed changes (Profile.name profile)) \<noteq> []) \<and>
   (\<forall>r. edit_and_submit profile changes = Invoke r \<longrightarrow>
      UpdateProfileInput.id r = Profile.id profile \<and>
      UpdateProfileInput.user_agent r =
        Some (typed user_agent_typed changes (Profile.user_agent profile)) \<and>
      UpdateProfileInput.platform r =
        Some (typed platform_typed changes (Profile.platform profile)) \<and>
      UpdateProfileInput.webgl_vendor r =
        Some (typed webgl_vendor_typed changes (Profile.webgl_vendor profile)) \<and>
      UpdateProfileInput.webgl_renderer r =
        Some (typed webgl_renderer_typed changes (Profile.webgl_renderer profile)) \<and>
      UpdateProfileInput.timezone r =
        Some (typed timezone_typed changes (Profile.timezone profile)) \<and>
      UpdateProfileInput.language r =
        Some (typed language_typed changes (Profile.language profile)))"
proof -
  let ?fd = "foldl (\<lambda>formData c. handleChange c formData) (formData_of profile) changes"
  have n: "UpdateProfileInput.name ?fd = Some (typed name_typed changes (Profile.name profile))"
    by (rule foldl_field [where g = UpdateProfileInput.name and sel = name_typed, OF step_name])
      (simp add: formData_of_def)
  have i: "UpdateProfileInput.id ?fd = Profile.id profile"
    by (simp add: foldl_id formData_of_def)
  have u: "UpdateProfileInput.user_agent ?fd =
      Some (typed user_agent_typed changes (Profile.user_agent profile))"
    by (rule foldl_field [where g = UpdateProfileInput.user_agent and sel = user_agent_typed, OF step_user_agent])
      (simp add: formData_of_def)
  have p: "UpdateProfileInput.platform ?fd =
      Some (typed platform_typed changes (Profile.platform profile))"
    by (rule foldl_field [where g = UpdateProfileInput.platform and sel = platform_typed, OF step_platform])
      (simp add: formData_of_def)
  have v: "UpdateProfileInput.webgl_vendor ?fd =
      Some (typed webgl_vendor_typed changes (Profile.webgl_vendor profile))"
    by (rule foldl_field [where g = UpdateProfileInput.webgl_vendor and sel = webgl_vendor_typed, OF step_webgl_vendor])
      (simp add: formData_of_def)
  have w: "UpdateProfileInput.webgl_renderer ?fd =
      Some (typed webgl_renderer_typed changes (Profile.webgl_renderer profile))"
    by (rule foldl_field [where g = UpdateProfileInput.webgl_renderer and sel = webgl_renderer_typed, OF step_webgl_renderer])
      (simp add: formData_of_def)
  have t: "UpdateProfileInput.timezone ?fd =
      Some (typed timezone_typed changes (Profile.timezone profile))"
    by (rule foldl_field [where g = UpdateProfileInput.timezone and sel = timezone_typed, OF step_timezone])
      (simp add: formData_of_def)
  have l: "UpdateProfileInput.language ?fd =
      Some (typed language_typed changes (Profile.language profile))"
    by (rule foldl_field [where g = UpdateProfileInput.language and sel = language_typed, OF step_language])
      (simp add: formData_of_def)
  have first: "(\<exists>r. edit_and_submit profile changes = Invoke r) \<longleftrightarrow>
      trim (typed name_typed changes (Profile.name profile)) \<noteq> []"
    by (simp add: edit_and_submit_def handleSubmit_def n)
  have second: "\<forall>r. edit_and_submit profile changes = Invoke r \<longrightarrow> r = ?fd"
    by (simp add: edit_and_submit_def handleSubmit_Invoke)
  from first second i u p v w t l show ?thesis by blast
qed

theorem edit_submits_typed_fields_witness:
  "edit_and_submit mac_profile [Change_user_agent ''x'', Change_platform ''Win32''] =
     Invoke ((formData_of mac_profile)
       \<lparr>UpdateProfileInput.user_agent := Some ''x'',
        UpdateProfileInput.platform := Some ''Win32''\<rparr>) \<and>
   typed platform_typed [Change_user_agent ''x'', Change_platform ''Win32'']
     (Profile.platform mac_profile) = ''Win32'' \<and>
   typed timezone_typed [Change_user_agent ''x'', Change_platform ''Win32'']
     (Profile.timezone mac_profile) = ''America/New_York'' \<and>
   edit_and_submit mac_profile [Change_name ''  ''] = Alert ''Profile name is required''"
  using edit_submits_typed_fields
    [of mac_profile "[Change_user_agent ''x'', Change_platform ''Win32'']"]
  by (simp add: edit_and_submit_def handleSubmit_def formData_of_def mac_profile_def
      typed_def platform_typed_def timezone_typed_def trim_def is_space_def)

section \<open>Where a launched window navigates\<close>

text \<open>
  C8. Whenever \<open>launch\<close> succeeds, the window it opened navigates to the request's
  \<open>start_url\<close> when the request gives one, and to the \<open>default_url\<close> stored with the
  identity when it gives none.
\<close>

theorem launch_navigates:
  "launch h m input = (Inr handle, m') \<Longrightarrow>
     map_option url (windows m' handle) =
       Some (case start_url input of
               Some u \<Rightarrow> u
             | None \<Rightarrow> Identity.default_url (get_identity m (profile_id input)))"
  by (auto simp: launch_def Let_def split: if_splits option.splits)

theorem launch_navigates_witness:
  "fst (launch demo_host demo_manager \<lparr>profile_id = ''p1'', start_url = Some ''https://example.org''\<rparr>)
     = Inr 1 \<and>
   map_option url
     (windows (snd (launch demo_host demo_manager
        \<lparr>profile_id = ''p1'', start_url = Some ''https://example.org''\<rparr>)) 1)
     = Some ''https://example.org'' \<and>
   fst (launch demo_host demo_manager \<lparr>profile_id = ''p1'', start_url = None\<rparr>) = Inr 1 \<and>
   map_option url
     (windows (snd (launch demo_host demo_manager \<lparr>profile_id = ''p1'', start_url = None\<rparr>)) 1)
     = Some ''https://www.google.com''"
proof -
  let ?a = "\<lparr>profile_id = ''p1'', start_url = Some ''https://example.org''\<rparr>"
  let ?b = "\<lparr>profile_id = ''p1'', start_url = None\<rparr>"
  have a: "fst (launch demo_host demo_manager ?a) = Inr 1"
    by (simp add: launch_def Let_def demo_host_def demo_manager_def)
  have b: "fst (launch demo_host demo_manager ?b) = Inr 1"
    by (simp add: launch_def Let_def demo_host_def demo_manager_def)
  have a': "launch demo_host demo_manager ?a = (Inr 1, snd (launch demo_host demo_manager ?a))"
    using a by (simp add: prod_eq_iff)
  have b': "launch demo_host demo_manager ?b = (Inr 1, snd (launch demo_host demo_manager ?b))"
    using b by (simp add: prod_eq_iff)
  from launch_navigates [OF a'] launch_navigates [OF b'] a b
  show ?thesis by (simp add: demo_manager_def)
qed

section \<open>Regenerate and delete are refused while a session is active\<close>

text \<open>
  C4. While an identity is \<open>Active\<close>, \<open>regenerate\<close> and \<open>delete\<close> return
  \<open>SessionActiveConflict\<close> and leave the manager as it was, so the identity's stored
  fingerprint and the storage partitions are unchanged; while it is \<open>Idle\<close>, both
  succeed.
\<close>

theorem regenerate_delete_guarded:
  "(state_of m i = Active \<longrightarrow>
      regenerate generate m i rng = (Inl SessionActiveConflict, m) \<and>
      delete h m i = (Inl SessionActiveConflict, m) \<and>
      fingerprint (get_identity (snd (regenerate generate m i rng)) i) =
        fingerprint (get_identity m i) \<and>
      partitions (snd (regenerate generate m i rng)) = partitions m \<and>
      fingerprint (get_identity (snd (delete h m i)) i) = fingerprint (get_identity m i) \<and>
      partitions (snd (delete h m i)) = partitions m) \<and>
   (state_of m i = Idle \<longrightarrow>
      (\<exists>fp m'. regenerate generate m i rng = (Inr fp, m')) \<and>
      (\<exists>m'. delete h m i = (Inr (), m')))"
  by (simp add: regenerate_def delete_def Let_def)

theorem regenerate_delete_guarded_witness:
  "state_of (snd (launch demo_host demo_manager \<lparr>profile_id = ''p1'', start_url = None\<rparr>)) ''p1''
     = Active \<and>
   fst (regenerate (\<lambda>r. r)
     (snd (launch demo_host demo_manager \<lparr>profile_id = ''p1'', start_url = None\<rparr>)) ''p1'' 7)
     = Inl SessionActiveConflict \<and>
   fst (delete demo_host
     (snd (launch demo_host demo_manager \<lparr>profile_id = ''p1'', start_url = None\<rparr>)) ''p1'')
     = Inl SessionActiveConflict \<and>
   state_of demo_manager ''p1'' = Idle \<and>
   fst (regenerate (\<lambda>r. r) demo_manager ''p1'' (7::nat)) = Inr 7 \<and>
   fst (delete demo_host demo_manager ''p1'') = Inr ()"
proof -
  let ?m = "snd (launch demo_host demo_manager \<lparr>profile_id = ''p1'', start_url = None\<rparr>)"
  have act: "state_of ?m ''p1'' = Active"
    by (simp add: launch_def Let_def demo_host_def demo_manager_def)
  have idle: "state_of demo_manager ''p1'' = Idle"
    by (simp add: demo_manager_def)
  from regenerate_delete_guarded [of ?m "''p1''" "\<lambda>r. r" 7 demo_host] act
  have "fst (regenerate (\<lambda>r. r) ?m ''p1'' 7) = Inl SessionActiveConflict"
    and "fst (delete demo_host ?m ''p1'') = Inl SessionActiveConflict"
    by simp_all
  moreover have "fst (regenerate (\<lambda>r. r) demo_manager ''p1'' (7::nat)) = Inr 7"
    by (simp add: regenerate_def idle)
  moreover have "fst (delete demo_host demo_manager ''p1'') = Inr ()"
    by (simp add: delete_def idle)
  ultimately show ?thesis using act idle by simp
qed

end
